theory Spec2Isabelle
  imports Complex_Main "HOL-Library.AList"
begin

section \<open>JavaScript values\<close>

text \<open>
  The front end handles whatever the backend's JSON decodes to, so records are modelled
  as JavaScript values rather than as typed records. A number is the exact rational value
  of the double; a string is the list of the bytes of its UTF-8 encoding; an object is the list of its own
  properties in enumeration order, with pairwise different keys. \<open>JBuiltin\<close> stands for
  a function or object that a lookup finds on \<open>Object.prototype\<close> (named by its key);
  no JSON text denotes one.
\<close>

datatype jsval =
    JUndefined
  | JNull
  | JBool bool
  | JNum rat
  | JStr string
  | JArr "jsval list"
  | JObj "(string \<times> jsval) list"
  | JBuiltin string

text \<open>An exception: a \<open>TypeError\<close> raised by the language, or the failure axios reports.\<close>

datatype js_error = TypeError | AxiosError string

text \<open>The state a promise settles in.\<close>

datatype 'a promise = Fulfilled 'a | Rejected js_error

text \<open>\<open>ToBoolean\<close>: what \<open>||\<close>, \<open>&&\<close>, \<open>!\<close> and \<open>? :\<close> test.\<close>

fun truthy :: "jsval \<Rightarrow> bool" where
  "truthy JUndefined = False"
| "truthy JNull = False"
| "truthy (JBool b) = b"
| "truthy (JNum r) = (r \<noteq> 0)"
| "truthy (JStr s) = (s \<noteq> [])"
| "truthy (JArr _) = True"
| "truthy (JObj _) = True"
| "truthy (JBuiltin _) = True"

text \<open>\<open>a || b\<close> on values that are already evaluated.\<close>

definition js_or :: "jsval \<Rightarrow> jsval \<Rightarrow> jsval" where
  "js_or a b = (if truthy a then a else b)"

text \<open>
  \<open>v.k\<close> for the property names this code reads (\<open>cameras\<close>, \<open>logs\<close>, \<open>status\<close>,
  \<open>id\<close>, ...): reading from \<open>null\<close> or \<open>undefined\<close> raises; an object gives its own
  property or \<open>undefined\<close>; none of these names is a property of a boolean, number,
  string or array.
\<close>

definition field :: "(string \<times> jsval) list \<Rightarrow> string \<Rightarrow> jsval" where
  "field m k = (case map_of m k of None \<Rightarrow> JUndefined | Some v \<Rightarrow> v)"

fun getProp :: "jsval \<Rightarrow> string \<Rightarrow> js_error + jsval" where
  "getProp JUndefined k = Inl TypeError"
| "getProp JNull k = Inl TypeError"
| "getProp (JObj m) k = Inr (field m k)"
| "getProp _ k = Inr JUndefined"

text \<open>
  Decimal digits of a non-negative integer, as \<open>String(n)\<close> prints an array index and as
  the date fields are printed.
\<close>

function digits :: "int \<Rightarrow> string" where
  "digits n = (if n < 10 then [char_of (48 + n)] else digits (n div 10) @ [char_of (48 + n mod 10)])"
  by pat_completeness auto
termination
  by (relation "measure nat") auto

declare digits.simps [simp del]

text \<open>
  The UTF-16 code units of a string, each as a string of its own. A code point of one,
  two or three bytes is one code unit; a code point of four bytes is a surrogate pair,
  and each half is written in the three-byte form of its value. A byte that starts no
  well-formed sequence counts as a unit by itself.
\<close>

definition is_continuation :: "char \<Rightarrow> bool" where
  "is_continuation c = (let n = (of_char c :: nat) in 128 \<le> n \<and> n < 192)"

definition scalar_length :: "string \<Rightarrow> nat" where
  "scalar_length s =
     (case s of
        [] \<Rightarrow> 1
      | b # bs \<Rightarrow>
          (let n = (of_char b :: nat)
           in if 240 \<le> n \<and> n < 248 \<and> 3 \<le> length bs \<and> list_all is_continuation (take 3 bs)
              then 4
              else if 224 \<le> n \<and> n < 240 \<and> 2 \<le> length bs \<and> list_all is_continuation (take 2 bs)
              then 3
              else if 192 \<le> n \<and> n < 224 \<and> 1 \<le> length bs \<and> list_all is_continuation (take 1 bs)
              then 2
              else 1))"

definition three_bytes :: "int \<Rightarrow> string" where
  "three_bytes u =
     [char_of (224 + u div 4096), char_of (128 + u div 64 mod 64), char_of (128 + u mod 64)]"

definition units_of_scalar :: "string \<Rightarrow> string list" where
  "units_of_scalar bs =
     (case bs of
        [b0, b1, b2, b3] \<Rightarrow>
          (let cp = (of_char b0 :: int) mod 8 * 262144 + (of_char b1 :: int) mod 64 * 4096
                    + (of_char b2 :: int) mod 64 * 64 + (of_char b3 :: int) mod 64;
               v = cp - 65536
           in [three_bytes (55296 + v div 1024), three_bytes (56320 + v mod 1024)])
      | _ \<Rightarrow> [bs])"

function utf16_units :: "string \<Rightarrow> string list" where
  "utf16_units s =
     (if s = [] then []
      else units_of_scalar (take (scalar_length s) s) @ utf16_units (drop (scalar_length s) s))"
  by pat_completeness auto
termination
  by (relation "measure length")
     (auto simp: scalar_length_def Let_def split: list.splits)

declare utf16_units.simps [simp del]

text \<open>
  The properties \<open>{...v}\<close> copies: an object's own properties, the elements of an array
  or the code units of a string under their indices, nothing for any other value.
\<close>

fun spread :: "jsval \<Rightarrow> (string \<times> jsval) list" where
  "spread (JObj m) = m"
| "spread (JArr xs) = zip (map (\<lambda>i. digits (int i)) [0..<length xs]) xs"
| "spread (JStr s) =
     zip (map (\<lambda>i. digits (int i)) [0..<length (utf16_units s)]) (map JStr (utf16_units s))"
| "spread _ = []"

text \<open>\<open>Object.values\<close> of an object or an array.\<close>

fun Object_values :: "jsval \<Rightarrow> jsval list" where
  "Object_values v = map snd (spread v)"

text \<open>The elements of an array, for \<open>xs.map(f)\<close>.\<close>

fun elements :: "jsval \<Rightarrow> jsval list" where
  "elements (JArr xs) = xs"
| "elements _ = []"

text \<open>\<open>typeof v === 'object'\<close> for a truthy \<open>v\<close>, and \<open>Array.isArray\<close>.\<close>

fun is_object :: "jsval \<Rightarrow> bool" where
  "is_object (JArr _) = True"
| "is_object (JObj _) = True"
| "is_object _ = False"

fun isArray :: "jsval \<Rightarrow> bool" where
  "isArray (JArr _) = True"
| "isArray _ = False"

text \<open>An object literal's \<open>k: v\<close> after a spread: an existing key keeps its place.\<close>

definition setProp :: "string \<Rightarrow> jsval \<Rightarrow> (string \<times> jsval) list \<Rightarrow> (string \<times> jsval) list" where
  "setProp k v m = AList.update k v m"

section \<open>utils/index.js\<close>

definition is_word_char :: "char \<Rightarrow> bool" where
  "is_word_char c =
     (let n = (of_char c :: nat)
      in (48 \<le> n \<and> n \<le> 57) \<or> (65 \<le> n \<and> n \<le> 90) \<or> n = 95 \<or> (97 \<le> n \<and> n \<le> 122))"

definition toUpperCase_char :: "char \<Rightarrow> char" where
  "toUpperCase_char c =
     (let n = (of_char c :: nat) in if 97 \<le> n \<and> n \<le> 122 then char_of (n - 32) else c)"

text \<open>\<open>s.replace('_', ' ')\<close> replaces the first occurrence only.\<close>

fun replace_first :: "char \<Rightarrow> char \<Rightarrow> string \<Rightarrow> string" where
  "replace_first a b [] = []"
| "replace_first a b (c # cs) = (if c = a then b # cs else c # replace_first a b cs)"

text \<open>
  \<open>s.replace(/\b\w/g, l => l.toUpperCase())\<close>: every word character that follows the
  start of the string or a non-word character is upper-cased. The flag says whether the
  previous character was a word character.
\<close>

fun capitalize_words :: "bool \<Rightarrow> string \<Rightarrow> string" where
  "capitalize_words prev [] = []"
| "capitalize_words prev (c # cs) =
     (if is_word_char c
      then (if prev then c else toUpperCase_char c) # capitalize_words True cs
      else c # capitalize_words False cs)"

text \<open>
  \<open>formatCameraName\<close>: a truthy id that is not a string has no \<open>replace\<close> method, and
  the call raises.
\<close>

fun formatCameraName :: "jsval \<Rightarrow> js_error + jsval" where
  "formatCameraName (JStr s) =
     (if s = [] then Inr (JStr ''Unknown Camera'')
      else Inr (JStr (capitalize_words False (replace_first (CHR ''_'') (CHR '' '') s))))"
| "formatCameraName v = (if \<not> truthy v then Inr (JStr ''Unknown Camera'') else Inl TypeError)"

definition locations :: "(string \<times> string) list" where
  "locations =
     [(''camera_1'', ''Main Entrance''),
      (''camera_2'', ''Office Floor''),
      (''camera_3'', ''Parking Lot''),
      (''camera_4'', ''Server Room'')]"

text \<open>
  The property names an object literal inherits from \<open>Object.prototype\<close>; a lookup of one
  of them in \<open>locations\<close> finds a function or an object.
\<close>

definition inherited_keys :: "string list" where
  "inherited_keys =
     [''constructor'', ''toString'', ''toLocaleString'', ''valueOf'', ''hasOwnProperty'',
      ''isPrototypeOf'', ''propertyIsEnumerable'', ''__proto__'', ''__defineGetter__'',
      ''__defineSetter__'', ''__lookupGetter__'', ''__lookupSetter__'']"

text \<open>
  The property key \<open>locations[cameraId]\<close> looks up, when it can be a key of the table or
  of the prototype at all. The key of a number starts with a digit, a sign, \<open>I\<close> or \<open>N\<close>,
  that of an object is \<open>[object Object]\<close>, that of an array of two or more elements has a
  comma: none of them is found, and the result is \<open>None\<close>. An array of one element has the
  key of its element (the empty string for \<open>null\<close> and \<open>undefined\<close>).
\<close>

fun propertyKey :: "jsval \<Rightarrow> string option" where
  "propertyKey JUndefined = Some ''undefined''"
| "propertyKey JNull = Some ''null''"
| "propertyKey (JBool b) = Some (if b then ''true'' else ''false'')"
| "propertyKey (JNum r) = None"
| "propertyKey (JStr s) = Some s"
| "propertyKey (JArr []) = Some []"
| "propertyKey (JArr [x]) =
     (case x of JUndefined \<Rightarrow> Some [] | JNull \<Rightarrow> Some [] | _ \<Rightarrow> propertyKey x)"
| "propertyKey (JArr (x # y # zs)) = None"
| "propertyKey (JObj m) = None"
| "propertyKey (JBuiltin f) = None"

definition getCameraLocation :: "jsval \<Rightarrow> jsval" where
  "getCameraLocation cameraId =
     (case propertyKey cameraId of
        None \<Rightarrow> JStr ''Unknown Location''
      | Some k \<Rightarrow>
          (case map_of locations k of
             Some l \<Rightarrow> JStr l
           | None \<Rightarrow> if k \<in> set inherited_keys then JBuiltin k else JStr ''Unknown Location''))"

section \<open>api/index.js: camera normalization\<close>

text \<open>
  The arrow function \<open>getCameras\<close> maps over the entries. The object literal is evaluated
  top to bottom; \<open>formatCameraName\<close> runs only when \<open>camera.name\<close> is falsy.
\<close>

definition normalizeCamera :: "jsval \<Rightarrow> js_error + jsval" where
  "normalizeCamera camera =
     (case getProp camera ''person_count'' of
        Inl e \<Rightarrow> Inl e
      | Inr person_count \<Rightarrow>
          (let get = (\<lambda>k. case getProp camera k of Inr v \<Rightarrow> v | Inl _ \<Rightarrow> JUndefined);
               personCount = js_or person_count (js_or (get ''personCount'') (JNum 0));
               lastFrame = js_or (get ''last_frame_time'') (get ''lastFrame'');
               status = js_or (get ''status'') (JStr ''unknown'');
               fps = js_or (get ''fps'') (JNum 0)
           in case (if truthy (get ''name'') then Inr (get ''name'')
                    else formatCameraName (get ''id'')) of
                Inl e \<Rightarrow> Inl e
              | Inr name \<Rightarrow>
                  Inr (JObj
                    (setProp ''location'' (js_or (get ''location'') (getCameraLocation (get ''id'')))
                    (setProp ''name'' name
                    (setProp ''fps'' fps
                    (setProp ''status'' status
                    (setProp ''lastFrame'' lastFrame
                    (setProp ''personCount'' personCount
                    (spread camera))))))))))"

section \<open>api/index.js: the axios instance\<close>

text \<open>
  What axios hands to the response interceptors: a response with its decoded body, or an
  error (connection refused, timeout after 10 seconds, status outside 2xx). The backend
  and the network are a function from the request URL to this result.
\<close>

record axios_response =
  status_code :: nat
  data :: jsval

datatype axios_result = Success axios_response | Failure js_error

type_synonym transport = "string \<Rightarrow> axios_result"

text \<open>
  The response interceptor: \<open>(response) => response.data\<close> on success; on failure it
  logs and returns \<open>Promise.reject(error)\<close>, so the promise of \<open>api.get\<close> rejects with
  the same error.
\<close>

definition response_interceptor :: "axios_result \<Rightarrow> jsval promise" where
  "response_interceptor r =
     (case r of Success response \<Rightarrow> Fulfilled (data response) | Failure e \<Rightarrow> Rejected e)"

definition api_get :: "transport \<Rightarrow> string \<Rightarrow> jsval promise" where
  "api_get t url = response_interceptor (t url)"

text \<open>\<open>xs.map(f)\<close> where \<open>f\<close> may raise: the first exception ends the loop.\<close>

fun map_throw :: "('a \<Rightarrow> js_error + 'b) \<Rightarrow> 'a list \<Rightarrow> js_error + 'b list" where
  "map_throw f [] = Inr []"
| "map_throw f (x # xs) =
     (case f x of
        Inl e \<Rightarrow> Inl e
      | Inr y \<Rightarrow> (case map_throw f xs of Inl e \<Rightarrow> Inl e | Inr ys \<Rightarrow> Inr (y # ys)))"

definition getSystemStats :: "transport \<Rightarrow> jsval promise" where
  "getSystemStats t = api_get t ''/system/stats''"

definition getCameras :: "transport \<Rightarrow> jsval promise" where
  "getCameras t =
     (case api_get t ''/cameras'' of
        Rejected e \<Rightarrow> Rejected e
      | Fulfilled response \<Rightarrow>
          (case getProp response ''cameras'' of
             Inl e \<Rightarrow> Rejected e
           | Inr cameras \<Rightarrow>
               if truthy cameras \<and> is_object cameras
               then (case map_throw normalizeCamera (Object_values cameras) of
                       Inl e \<Rightarrow> Rejected e
                     | Inr camerasArray \<Rightarrow>
                         Fulfilled (JObj (setProp ''cameras'' (JArr camerasArray) (spread response))))
               else Fulfilled response))"

section \<open>api/index.js: access logs and employees\<close>

text \<open>
  \<open>new URLSearchParams(params).toString()\<close>: the application/x-www-form-urlencoded
  serializer over the bytes of each name and value. The parameters are the own properties
  of \<open>params\<close> in order; the filter values are strings.
\<close>

definition hex_digit :: "nat \<Rightarrow> char" where
  "hex_digit n = (if n < 10 then char_of (48 + n) else char_of (55 + n))"

definition urlencode_byte :: "char \<Rightarrow> string" where
  "urlencode_byte c =
     (let n = (of_char c :: nat)
      in if (48 \<le> n \<and> n \<le> 57) \<or> (65 \<le> n \<and> n \<le> 90) \<or> (97 \<le> n \<and> n \<le> 122)
            \<or> n = 42 \<or> n = 45 \<or> n = 46 \<or> n = 95
         then [c]
         else if n = 32 then ''+''
         else [CHR ''%'', hex_digit (n div 16), hex_digit (n mod 16)])"

definition urlencode :: "string \<Rightarrow> string" where
  "urlencode s = concat (map urlencode_byte s)"

fun join :: "string \<Rightarrow> string list \<Rightarrow> string" where
  "join sep [] = []"
| "join sep [x] = x"
| "join sep (x # y # ys) = x @ sep @ join sep (y # ys)"

definition URLSearchParams_toString :: "(string \<times> string) list \<Rightarrow> string" where
  "URLSearchParams_toString params =
     join ''&'' (map (\<lambda>(k, v). urlencode k @ ''='' @ urlencode v) params)"

definition accessLogsUrl :: "(string \<times> string) list \<Rightarrow> string" where
  "accessLogsUrl params = ''/access/logs?'' @ URLSearchParams_toString params"

text \<open>
  \<open>new Date(ms).toISOString()\<close> for a time value in milliseconds since the epoch:
  the proleptic Gregorian date from the day number, then \<open>YYYY-MM-DDTHH:mm:ss.sssZ\<close>
  (a sign and six digits for a year outside 0..9999).
\<close>

definition pad :: "nat \<Rightarrow> int \<Rightarrow> string" where
  "pad w n = replicate (w - length (digits n)) (CHR ''0'') @ digits n"

definition civil_from_days :: "int \<Rightarrow> int \<times> int \<times> int" where
  "civil_from_days days =
     (let z = days + 719468;
          era = z div 146097;
          doe = z mod 146097;
          yoe = (doe - doe div 1460 + doe div 36524 - doe div 146096) div 365;
          doy = doe - (365 * yoe + yoe div 4 - yoe div 100);
          mp = (5 * doy + 2) div 153;
          d = doy - (153 * mp + 2) div 5 + 1;
          m = (if mp < 10 then mp + 3 else mp - 9);
          y = yoe + era * 400 + (if m \<le> 2 then 1 else 0)
      in (y, m, d))"

definition toISOString :: "int \<Rightarrow> string" where
  "toISOString ms =
     (let (y, m, d) = civil_from_days (ms div 86400000);
          t = ms mod 86400000;
          year = (if 0 \<le> y \<and> y \<le> 9999 then pad 4 y
                  else (if y < 0 then ''-'' else ''+'') @ pad 6 \<bar>y\<bar>)
      in year @ ''-'' @ pad 2 m @ ''-'' @ pad 2 d @ ''T'' @ pad 2 (t div 3600000) @ '':''
         @ pad 2 (t div 60000 mod 60) @ '':'' @ pad 2 (t div 1000 mod 60) @ ''.''
         @ pad 3 (t mod 1000) @ ''Z'')"

text \<open>
  The arrow function \<open>getAccessLogs\<close> maps over \<open>response.logs\<close>; \<open>now\<close> is what the
  clock shows when this entry is reached.
\<close>

definition normalizeLog :: "int \<Rightarrow> jsval \<Rightarrow> js_error + jsval" where
  "normalizeLog now entry =
     (case getProp entry ''id'' of
        Inl e \<Rightarrow> Inl e
      | Inr id0 \<Rightarrow>
          (let get = (\<lambda>k. case getProp entry k of Inr v \<Rightarrow> v | Inl _ \<Rightarrow> JUndefined)
           in Inr (JObj
                (setProp ''access_type'' (js_or (get ''access_type'') (JStr ''unknown''))
                (setProp ''person_id'' (js_or (get ''person_id'') (JStr ''unknown''))
                (setProp ''camera_id'' (js_or (get ''camera_id'') (JStr ''unknown''))
                (setProp ''timestamp'' (js_or (get ''timestamp'') (JStr (toISOString now)))
                (setProp ''confidence_score'' (js_or (get ''confidence'') (get ''confidence_score''))
                (setProp ''access_result'' (js_or (get ''access_type'') (get ''access_result''))
                (setProp ''log_id'' (js_or id0 (get ''log_id''))
                (spread entry)))))))))))"

text \<open>\<open>xs.map(f)\<close> with the clock read at each entry: \<open>clock i\<close> is the time at entry \<open>i\<close>.\<close>

definition map_clock ::
  "(int \<Rightarrow> jsval \<Rightarrow> js_error + jsval) \<Rightarrow> (nat \<Rightarrow> int) \<Rightarrow> jsval list \<Rightarrow> js_error + jsval list" where
  "map_clock f clock xs = map_throw (\<lambda>(i, x). f (clock i) x) (zip [0..<length xs] xs)"

definition getAccessLogs :: "(nat \<Rightarrow> int) \<Rightarrow> (string \<times> string) list \<Rightarrow> transport \<Rightarrow> jsval promise" where
  "getAccessLogs clock params t =
     (case api_get t (accessLogsUrl params) of
        Rejected e \<Rightarrow> Rejected e
      | Fulfilled response \<Rightarrow>
          (case getProp response ''logs'' of
             Inl e \<Rightarrow> Rejected e
           | Inr logs \<Rightarrow>
               if truthy logs \<and> isArray logs
               then (case map_clock normalizeLog clock (elements logs) of
                       Inl e \<Rightarrow> Rejected e
                     | Inr normalized \<Rightarrow> Fulfilled (JArr normalized))
               else if isArray response then Fulfilled response
               else Fulfilled (JArr [])))"

definition normalizeEmployee :: "int \<Rightarrow> jsval \<Rightarrow> js_error + jsval" where
  "normalizeEmployee now employee =
     (case getProp employee ''id'' of
        Inl e \<Rightarrow> Inl e
      | Inr id0 \<Rightarrow>
          (let get = (\<lambda>k. case getProp employee k of Inr v \<Rightarrow> v | Inl _ \<Rightarrow> JUndefined)
           in Inr (JObj
                (setProp ''status'' (js_or (get ''status'') (JStr ''active''))
                (setProp ''registered_date'' (js_or (get ''registered_date'') (JStr (toISOString now)))
                (setProp ''face_image''
                   (js_or (get ''face_snapshot'') (js_or (get ''face_image'') (JStr [])))
                (setProp ''position'' (js_or (get ''position'') (JStr []))
                (setProp ''department'' (js_or (get ''department'') (JStr []))
                (setProp ''email'' (js_or (get ''email'') (JStr []))
                (setProp ''name'' (js_or (get ''name'') (JStr ''Unknown''))
                (setProp ''employee_id'' (js_or id0 (get ''employee_id''))
                (spread employee))))))))))))"

definition getEmployees :: "(nat \<Rightarrow> int) \<Rightarrow> transport \<Rightarrow> jsval promise" where
  "getEmployees clock t =
     (case api_get t ''/employees'' of
        Rejected e \<Rightarrow> Rejected e
      | Fulfilled response \<Rightarrow>
          (case getProp response ''employees'' of
             Inl e \<Rightarrow> Rejected e
           | Inr employees \<Rightarrow>
               if truthy employees \<and> isArray employees
               then (case map_clock normalizeEmployee clock (elements employees) of
                       Inl e \<Rightarrow> Rejected e
                     | Inr normalized \<Rightarrow> Fulfilled (JArr normalized))
               else if isArray response then Fulfilled response
               else Fulfilled (JArr [])))"

section \<open>components/LogTable.jsx\<close>

text \<open>
  The component's state: the page number and the filter inputs. The filters are the
  properties of the state object in order; every value is the text of an input.
\<close>

record log_table =
  currentPage :: int
  filters :: "(string \<times> string) list"

definition clearedFilters :: "(string \<times> string) list" where
  "clearedFilters =
     [(''search'', []), (''dateFrom'', []), (''dateTo'', []),
      (''employeeId'', []), (''cameraId'', []), (''status'', [])]"


definition itemsPerPage :: int where
  "itemsPerPage = 10"

text \<open>\<open>Array.isArray(logs) ? logs : []\<close>.\<close>

fun safeLogs :: "jsval \<Rightarrow> jsval list" where
  "safeLogs (JArr xs) = xs"
| "safeLogs _ = []"

text \<open>\<open>Math.ceil(safeLogs.length / itemsPerPage)\<close>, exact on array lengths.\<close>

definition totalPages :: "jsval \<Rightarrow> int" where
  "totalPages logs = (int (length (safeLogs logs)) + itemsPerPage - 1) div itemsPerPage"







definition clearFilters :: "log_table \<Rightarrow> log_table \<times> (string \<times> string) list" where
  "clearFilters st = (st\<lparr>filters := clearedFilters, currentPage := 1\<rparr>, clearedFilters)"

text \<open>
  The pagination buttons exist only when \<open>totalPages > 1\<close>; each is disabled at its end
  of the range.
\<close>

definition clickPrevious :: "jsval \<Rightarrow> log_table \<Rightarrow> log_table" where
  "clickPrevious logs st =
     (if totalPages logs > 1 \<and> currentPage st \<noteq> 1
      then st\<lparr>currentPage := max 1 (currentPage st - 1)\<rparr> else st)"


text \<open>
  Formatting that depends on the host: \<open>new Date(v).toLocaleString()\<close>, the
  floating-point \<open>(v * 100).toFixed(1)\<close>, and the \<open>String(v)\<close> that \<open>join\<close> applies to a
  value that is not a string.
\<close>

record host =
  toLocaleString :: "jsval \<Rightarrow> string"
  times100_toFixed1 :: "jsval \<Rightarrow> string"
  toString :: "jsval \<Rightarrow> string"

text \<open>
  The confidence cell of a table row:
  \<open>log.confidence_score ? `${(log.confidence_score * 100).toFixed(1)}%` : 'N/A'\<close>.
\<close>

definition confidenceText :: "host \<Rightarrow> jsval \<Rightarrow> string" where
  "confidenceText h score = (if truthy score then times100_toFixed1 h score @ ''%'' else ''N/A'')"

definition confidenceCell :: "host \<Rightarrow> jsval \<Rightarrow> js_error + string" where
  "confidenceCell h entry =
     (case getProp entry ''confidence_score'' of
        Inl e \<Rightarrow> Inl e
      | Inr score \<Rightarrow> Inr (confidenceText h score))"

section \<open>pages/AccessLogs.jsx\<close>

record access_logs_page =
  page_logs :: jsval
  page_loading :: bool
  page_error :: "string option"
  page_filters :: "(string \<times> string) list"

definition AccessLogs_initial :: access_logs_page where
  "AccessLogs_initial = \<lparr>page_logs = JArr [], page_loading = True, page_error = None, page_filters = []\<rparr>"

text \<open>
  The mock data of the \<open>catch\<close> block. Each entry reads \<open>Date.now()\<close>; \<open>clock i\<close> is the
  time at entry \<open>i\<close>.
\<close>

definition mockLogs :: "(nat \<Rightarrow> int) \<Rightarrow> jsval" where
  "mockLogs clock = JArr
     [JObj [(''log_id'', JNum 1),
            (''timestamp'', JStr (toISOString (clock 0 - 5000))),
            (''camera_id'', JStr ''camera_1''),
            (''person_id'', JStr ''EMP001''),
            (''access_type'', JStr ''face_recognition''),
            (''access_result'', JStr ''granted''),
            (''confidence_score'', JNum (95 / 100))],
      JObj [(''log_id'', JNum 2),
            (''timestamp'', JStr (toISOString (clock 1 - 15000))),
            (''camera_id'', JStr ''camera_2''),
            (''person_id'', JStr ''unknown''),
            (''access_type'', JStr ''body_recognition''),
            (''access_result'', JStr ''denied''),
            (''confidence_score'', JNum (45 / 100))],
      JObj [(''log_id'', JNum 3),
            (''timestamp'', JStr (toISOString (clock 2 - 30000))),
            (''camera_id'', JStr ''camera_1''),
            (''person_id'', JStr ''EMP002''),
            (''access_type'', JStr ''face_recognition''),
            (''access_result'', JStr ''tailgating''),
            (''confidence_score'', JNum (88 / 100))],
      JObj [(''log_id'', JNum 4),
            (''timestamp'', JStr (toISOString (clock 3 - 60000))),
            (''camera_id'', JStr ''camera_3''),
            (''person_id'', JStr ''EMP003''),
            (''access_type'', JStr ''card_swipe''),
            (''access_result'', JStr ''granted''),
            (''confidence_score'', JNum 1)],
      JObj [(''log_id'', JNum 5),
            (''timestamp'', JStr (toISOString (clock 4 - 120000))),
            (''camera_id'', JStr ''camera_1''),
            (''person_id'', JStr ''EMP001''),
            (''access_type'', JStr ''face_recognition''),
            (''access_result'', JStr ''granted''),
            (''confidence_score'', JNum (92 / 100))]]"

text \<open>
  The state cells of the page are \<open>logs\<close>, \<open>loading\<close>, \<open>error\<close> and \<open>filters\<close>.
  \<open>fetchLogs\<close>, from the call to the end of \<open>finally\<close>: the request carries the page's
  filters; a rejection is caught and replaced by the mock data and a message.
\<close>

definition fetchLogs :: "(nat \<Rightarrow> int) \<Rightarrow> transport \<Rightarrow> access_logs_page \<Rightarrow> access_logs_page" where
  "fetchLogs clock t page =
     (case getAccessLogs clock (page_filters page) t of
        Fulfilled d \<Rightarrow>
          page\<lparr>page_logs := (if isArray d then d else JArr []), page_error := None,
               page_loading := False\<rparr>
      | Rejected e \<Rightarrow>
          page\<lparr>page_error := Some ''Failed to load access logs'', page_logs := mockLogs clock,
               page_loading := False\<rparr>)"


text \<open>
  \<open>handleExport\<close>: the fields of one CSV row and the file's text. \<open>join\<close> prints
  \<open>null\<close> and \<open>undefined\<close> as the empty string.
\<close>

definition join_element :: "host \<Rightarrow> jsval \<Rightarrow> string" where
  "join_element h v =
     (case v of JUndefined \<Rightarrow> [] | JNull \<Rightarrow> [] | JStr s \<Rightarrow> s | _ \<Rightarrow> toString h v)"

definition csvFields :: "host \<Rightarrow> jsval \<Rightarrow> js_error + string list" where
  "csvFields h entry =
     (case getProp entry ''timestamp'' of
        Inl e \<Rightarrow> Inl e
      | Inr timestamp \<Rightarrow>
          (let get = (\<lambda>k. case getProp entry k of Inr v \<Rightarrow> v | Inl _ \<Rightarrow> JUndefined)
           in Inr [toLocaleString h timestamp,
                   join_element h (get ''camera_id''),
                   join_element h (get ''person_id''),
                   join_element h (get ''access_type''),
                   join_element h (get ''access_result''),
                   confidenceText h (get ''confidence_score'')]))"

definition csvHeaders :: "string list" where
  "csvHeaders = [''Timestamp'', ''Camera'', ''Person ID'', ''Access Type'', ''Status'', ''Confidence'']"

definition csvContent :: "host \<Rightarrow> jsval \<Rightarrow> js_error + string" where
  "csvContent h logs =
     (case map_throw (csvFields h) (safeLogs logs) of
        Inl e \<Rightarrow> Inl e
      | Inr rows \<Rightarrow> Inr (join [CHR 0x0A] (join '','' csvHeaders # map (join '','') rows)))"

section \<open>pages/Dashboard.jsx\<close>

text \<open>The state cells \<open>systemStats\<close>, \<open>cameras\<close>, \<open>loading\<close> and \<open>error\<close>.\<close>

record dashboard_view =
  systemStats :: jsval
  cameras :: jsval
  dash_loading :: bool
  dash_error :: "string option"

definition Dashboard_initial :: dashboard_view where
  "Dashboard_initial =
     \<lparr>systemStats = JNull, cameras = JArr [], dash_loading = True, dash_error = None\<rparr>"

text \<open>
  The fallback data of the \<open>catch\<close> block; \<open>new Date()\<close> is read once for the statistics
  (\<open>clock 0\<close>) and once for each of the first two cameras (\<open>clock 1\<close>, \<open>clock 2\<close>).
\<close>

definition mockStats :: "(nat \<Rightarrow> int) \<Rightarrow> jsval" where
  "mockStats clock = JObj
     [(''total_people_detected'', JNum 42),
      (''total_access_granted'', JNum 156),
      (''total_access_denied'', JNum 8),
      (''total_tailgating_incidents'', JNum 3),
      (''active_cameras'', JNum 2),
      (''total_cameras'', JNum 4),
      (''system_uptime'', JStr ''2 days, 14 hours''),
      (''last_update'', JStr (toISOString (clock 0)))]"

definition mockCameras :: "(nat \<Rightarrow> int) \<Rightarrow> jsval" where
  "mockCameras clock = JArr
     [JObj [(''id'', JStr ''camera_1''), (''name'', JStr ''Main Entrance''),
            (''status'', JStr ''online''), (''personCount'', JNum 2), (''fps'', JNum 30),
            (''lastFrame'', JStr (toISOString (clock 1)))],
      JObj [(''id'', JStr ''camera_2''), (''name'', JStr ''Office Floor''),
            (''status'', JStr ''online''), (''personCount'', JNum 1), (''fps'', JNum 28),
            (''lastFrame'', JStr (toISOString (clock 2)))],
      JObj [(''id'', JStr ''camera_3''), (''name'', JStr ''Parking Lot''),
            (''status'', JStr ''offline''), (''personCount'', JNum 0), (''fps'', JNum 0),
            (''error'', JStr ''Connection lost'')],
      JObj [(''id'', JStr ''camera_4''), (''name'', JStr ''Server Room''),
            (''status'', JStr ''error''), (''personCount'', JNum 0), (''fps'', JNum 0),
            (''error'', JStr ''Hardware malfunction'')]]"

text \<open>
  \<open>Array.isArray(camerasData?.cameras) ? camerasData.cameras
     : Array.isArray(camerasData) ? camerasData : []\<close>.
\<close>

definition cameraList :: "jsval \<Rightarrow> jsval" where
  "cameraList camerasData =
     (let inner = (case getProp camerasData ''cameras'' of Inr v \<Rightarrow> v | Inl _ \<Rightarrow> JUndefined)
      in if isArray inner then inner
         else if isArray camerasData then camerasData
         else JArr [])"

text \<open>
  What \<open>fetchData\<close> does once \<open>Promise.all\<close> settles: with both results the state is set
  from them; a rejection of either goes to \<open>catch\<close>. \<open>finally\<close> clears \<open>loading\<close>.
\<close>

definition fetchData_settled ::
  "(nat \<Rightarrow> int) \<Rightarrow> jsval promise \<Rightarrow> jsval promise \<Rightarrow> dashboard_view \<Rightarrow> dashboard_view" where
  "fetchData_settled clock stats cams v =
     (case (stats, cams) of
        (Fulfilled statsData, Fulfilled camerasData) \<Rightarrow>
          v\<lparr>systemStats := statsData, cameras := cameraList camerasData, dash_error := None,
            dash_loading := False\<rparr>
      | _ \<Rightarrow>
          v\<lparr>dash_error := Some ''Failed to load dashboard data'', systemStats := mockStats clock,
            cameras := mockCameras clock, dash_loading := False\<rparr>)"

definition fetchData :: "(nat \<Rightarrow> int) \<Rightarrow> transport \<Rightarrow> dashboard_view \<Rightarrow> dashboard_view" where
  "fetchData clock t v = fetchData_settled clock (getSystemStats t) (getCameras t) v"

text \<open>
  The effect of \<open>Dashboard\<close> as a machine over events, for one instance of the
  component. Besides the view it has the instance's place in its life, the interval
  timer and the number of calls of \<open>fetchData\<close> that are waiting at their \<open>await\<close>.
  \<^item> \<open>Mount\<close> runs the effect: \<open>fetchData()\<close> sets \<open>loading\<close> and sends its requests, and
    \<open>setInterval\<close> starts the timer. An instance is mounted once.
  \<^item> \<open>Tick\<close> is the timer firing \<open>fetchData\<close>; a cleared timer does not fire.
  \<^item> \<open>Settle clock t\<close> is the backend \<open>t\<close> answering a waiting call, which then runs to
    its end.
  \<^item> \<open>Unmount\<close> removes the component. The effect has an empty dependency list, so this
    is the one time its cleanup \<open>clearInterval(interval)\<close> runs.
  The state cells belong to the framework: a call of a setter changes them while the
  instance is mounted, and is discarded once it is unmounted.
\<close>

datatype lifecycle = NotMounted | IsMounted | Unmounted

record dashboard =
  view :: dashboard_view
  life :: lifecycle
  timer :: bool
  in_flight :: nat

datatype event = Mount | Tick | Settle "nat \<Rightarrow> int" transport | Unmount

definition Dashboard_unmounted :: dashboard where
  "Dashboard_unmounted =
     \<lparr>view = Dashboard_initial, life = NotMounted, timer = False, in_flight = 0\<rparr>"

text \<open>The view after the setter calls \<open>f\<close>.\<close>

definition setState :: "dashboard \<Rightarrow> (dashboard_view \<Rightarrow> dashboard_view) \<Rightarrow> dashboard_view" where
  "setState d f = (if life d = IsMounted then f (view d) else view d)"

fun step :: "event \<Rightarrow> dashboard \<Rightarrow> dashboard" where
  "step Mount d =
     (if life d = NotMounted
      then d\<lparr>view := (view d)\<lparr>dash_loading := True\<rparr>, life := IsMounted,
             in_flight := in_flight d + 1, timer := True\<rparr>
      else d)"
| "step Tick d =
     (if timer d
      then d\<lparr>view := setState d (\<lambda>v. v\<lparr>dash_loading := True\<rparr>), in_flight := in_flight d + 1\<rparr>
      else d)"
| "step (Settle clock t) d =
     (if in_flight d > 0
      then d\<lparr>view := setState d (fetchData clock t), in_flight := in_flight d - 1\<rparr>
      else d)"
| "step Unmount d =
     (if life d = IsMounted then d\<lparr>timer := False, life := Unmounted\<rparr> else d)"

fun run :: "event list \<Rightarrow> dashboard \<Rightarrow> dashboard" where
  "run [] d = d"
| "run (e # es) d = run es (step e d)"

section \<open>pages/CameraHealth.jsx\<close>

text \<open>
  The component \<open>CameraHealth\<close>; its text follows that of \<open>Employees\<close> in
  \<open>pages/Employees.jsx\<close>.
\<close>

text \<open>The state cells \<open>cameras\<close>, \<open>loading\<close> and \<open>error\<close> that \<open>fetchCameras\<close> sets.\<close>

record camera_health_view =
  health_cameras :: jsval
  health_loading :: bool
  health_error :: "string option"

text \<open>The mock data of the \<open>catch\<close> block; every camera reads \<open>Date.now()\<close>.\<close>

definition health_mockCameras :: "(nat \<Rightarrow> int) \<Rightarrow> jsval" where
  "health_mockCameras clock = JArr
     [JObj [(''id'', JStr ''camera_1''), (''name'', JStr ''Main Entrance''),
            (''status'', JStr ''online''), (''location'', JStr ''Main Entrance''),
            (''fps'', JNum 30), (''resolution'', JStr ''1920x1080''),
            (''lastFrame'', JStr (toISOString (clock 0 - 5000))),
            (''uptime'', JStr ''2 days, 14 hours''), (''error'', JNull), (''alerts'', JArr [])],
      JObj [(''id'', JStr ''camera_2''), (''name'', JStr ''Office Floor''),
            (''status'', JStr ''online''), (''location'', JStr ''Office Floor''),
            (''fps'', JNum 28), (''resolution'', JStr ''1920x1080''),
            (''lastFrame'', JStr (toISOString (clock 1 - 3000))),
            (''uptime'', JStr ''1 day, 8 hours''), (''error'', JNull), (''alerts'', JArr [])],
      JObj [(''id'', JStr ''camera_3''), (''name'', JStr ''Parking Lot''),
            (''status'', JStr ''offline''), (''location'', JStr ''Parking Lot''),
            (''fps'', JNum 0), (''resolution'', JStr ''1920x1080''),
            (''lastFrame'', JStr (toISOString (clock 2 - 300000))),
            (''uptime'', JStr ''0 days, 0 hours''),
            (''error'', JStr ''Connection lost - Network timeout''),
            (''alerts'', JArr [JStr ''Network connectivity issue'', JStr ''Camera not responding''])],
      JObj [(''id'', JStr ''camera_4''), (''name'', JStr ''Server Room''),
            (''status'', JStr ''error''), (''location'', JStr ''Server Room''),
            (''fps'', JNum 0), (''resolution'', JStr ''1920x1080''),
            (''lastFrame'', JStr (toISOString (clock 3 - 600000))),
            (''uptime'', JStr ''0 days, 0 hours''),
            (''error'', JStr ''Hardware malfunction - Sensor failure''),
            (''alerts'', JArr [JStr ''Hardware error'', JStr ''Temperature warning'',
                               JStr ''Low disk space''])]]"

definition health_fetchCameras :: "(nat \<Rightarrow> int) \<Rightarrow> transport \<Rightarrow> camera_health_view \<Rightarrow> camera_health_view" where
  "health_fetchCameras clock t v =
     (case getCameras t of
        Fulfilled camerasData \<Rightarrow>
          v\<lparr>health_cameras := cameraList camerasData, health_error := None,
            health_loading := False\<rparr>
      | Rejected e \<Rightarrow>
          v\<lparr>health_error := Some ''Failed to load camera data'',
            health_cameras := health_mockCameras clock, health_loading := False\<rparr>)"

section \<open>pages/LiveFeed.jsx\<close>

text \<open>The component \<open>LiveFeed\<close>; its text follows that of \<open>App\<close> in \<open>App.jsx\<close>.\<close>

text \<open>
  The state cells \<open>cameras\<close>, \<open>selectedCamera\<close>, \<open>loading\<close> and \<open>error\<close> that
  \<open>fetchCameras\<close> sets.
\<close>

record live_feed_view =
  live_cameras :: jsval
  live_selectedCamera :: jsval
  live_loading :: bool
  live_error :: "string option"

definition live_mockCameras :: jsval where
  "live_mockCameras = JArr
     [JObj [(''id'', JStr ''camera_1''), (''name'', JStr ''Main Entrance''),
            (''status'', JStr ''online''), (''location'', JStr ''Main Entrance'')],
      JObj [(''id'', JStr ''camera_2''), (''name'', JStr ''Office Floor''),
            (''status'', JStr ''online''), (''location'', JStr ''Office Floor'')]]"

text \<open>\<open>xs.find(c => c.id === cameraId)\<close>; reading \<open>id\<close> from a \<open>null\<close> element raises.\<close>

fun find_camera :: "string \<Rightarrow> jsval list \<Rightarrow> js_error + jsval" where
  "find_camera cameraId [] = Inr JUndefined"
| "find_camera cameraId (c # cs) =
     (case getProp c ''id'' of
        Inl e \<Rightarrow> Inl e
      | Inr v \<Rightarrow> if v = JStr cameraId then Inr c else find_camera cameraId cs)"

text \<open>
  \<open>camerasData.find(c => c.id === cameraId) || camerasData[0]\<close>: only an array has a
  \<open>find\<close> method, so the call raises on any other value.
\<close>

definition select_camera :: "string \<Rightarrow> jsval \<Rightarrow> js_error + jsval" where
  "select_camera cameraId camerasData =
     (case camerasData of
        JArr xs \<Rightarrow>
          (case find_camera cameraId xs of
             Inl e \<Rightarrow> Inl e
           | Inr found \<Rightarrow> Inr (js_or found (case xs of [] \<Rightarrow> JUndefined | x # _ \<Rightarrow> x)))
      | _ \<Rightarrow> Inl TypeError)"

text \<open>
  \<open>fetchCameras\<close> of the live feed: an exception in the \<open>try\<close> block, from the gateway
  or from \<open>find\<close>, is caught and the mock cameras are shown.
\<close>

definition live_fetchCameras :: "string \<Rightarrow> transport \<Rightarrow> live_feed_view \<Rightarrow> live_feed_view" where
  "live_fetchCameras cameraId t v =
     (let mock = v\<lparr>live_error := Some ''Failed to load cameras'', live_cameras := live_mockCameras,
                    live_selectedCamera :=
                      (case select_camera cameraId live_mockCameras of
                         Inr c \<Rightarrow> c | Inl _ \<Rightarrow> JUndefined),
                    live_loading := False\<rparr>
      in case getCameras t of
           Rejected e \<Rightarrow> mock
         | Fulfilled camerasData \<Rightarrow>
             (case select_camera cameraId camerasData of
                Inl e \<Rightarrow> mock
              | Inr camera \<Rightarrow>
                  v\<lparr>live_cameras := camerasData, live_selectedCamera := camera,
                    live_error := None, live_loading := False\<rparr>))"

section \<open>pages/Employees.jsx\<close>

text \<open>The state cells \<open>employees\<close>, \<open>loading\<close> and \<open>error\<close> that \<open>fetchEmployees\<close> sets.\<close>

record employees_view =
  employees_list :: jsval
  employees_loading :: bool
  employees_error :: "string option"

text \<open>
  The mock data of the \<open>catch\<close> block. \<open>new Date('2024-01-15')\<close> is midnight UTC of that
  day, the time value 1705276800000; \<open>new Date('2024-01-20')\<close> is 1705708800000.
\<close>

definition mockEmployees :: jsval where
  "mockEmployees = JArr
     [JObj [(''id'', JNum 1), (''name'', JStr ''John Doe''), (''employee_id'', JStr ''EMP001''),
            (''email'', JStr ''john.doe@company.com''), (''phone'', JStr ''+1-555-0123''),
            (''department'', JStr ''Engineering''),
            (''face_image'', JStr ''/api/employees/1/face''),
            (''registered_date'', JStr (toISOString 1705276800000)),
            (''status'', JStr ''active'')],
      JObj [(''id'', JNum 2), (''name'', JStr ''Jane Smith''), (''employee_id'', JStr ''EMP002''),
            (''email'', JStr ''jane.smith@company.com''), (''phone'', JStr ''+1-555-0124''),
            (''department'', JStr ''Marketing''),
            (''face_image'', JStr ''/api/employees/2/face''),
            (''registered_date'', JStr (toISOString 1705708800000)),
            (''status'', JStr ''active'')]]"

definition fetchEmployees :: "(nat \<Rightarrow> int) \<Rightarrow> transport \<Rightarrow> employees_view \<Rightarrow> employees_view" where
  "fetchEmployees clock t v =
     (case getEmployees clock t of
        Fulfilled d \<Rightarrow> v\<lparr>employees_list := d, employees_error := None, employees_loading := False\<rparr>
      | Rejected e \<Rightarrow>
          v\<lparr>employees_error := Some ''Failed to load employees'', employees_list := mockEmployees,
            employees_loading := False\<rparr>)"

section \<open>Notions for stating the properties\<close>



text \<open>
  A raw camera record: a JSON object whose \<open>id\<close> is a string when it has one (a record
  with a name may have any id). These are the records \<open>normalizeCamera\<close> returns on.
\<close>

definition isString :: "jsval \<Rightarrow> bool" where
  "isString v = (case v of JStr _ \<Rightarrow> True | _ \<Rightarrow> False)"

definition camera_record :: "jsval \<Rightarrow> bool" where
  "camera_record c =
     (case c of
        JObj m \<Rightarrow> truthy (field m ''name'') \<or> \<not> truthy (field m ''id'') \<or> isString (field m ''id'')
      | _ \<Rightarrow> False)"





text \<open>A record without one property, to compare records up to that property.\<close>

definition without :: "string \<Rightarrow> jsval \<Rightarrow> jsval" where
  "without k v = (case v of JObj m \<Rightarrow> JObj (AList.delete k m) | _ \<Rightarrow> v)"

text \<open>An array with one property removed from each element.\<close>

definition without_each :: "string \<Rightarrow> jsval \<Rightarrow> jsval" where
  "without_each k v = (case v of JArr xs \<Rightarrow> JArr (map (without k) xs) | _ \<Rightarrow> v)"

section \<open>Example inputs\<close>

text \<open>An envelope map: two cameras keyed by their ids.\<close>

definition two_cameras :: "(string \<times> jsval) list" where
  "two_cameras =
     [(''camera_1'', JObj [(''id'', JStr ''camera_1''), (''status'', JStr ''online'')]),
      (''camera_2'', JObj [(''id'', JStr ''camera_2''), (''person_count'', JNum 3)])]"

text \<open>A host whose formatting functions print fixed texts.\<close>

definition example_host :: host where
  "example_host =
     \<lparr>toLocaleString = (\<lambda>v. ''1/15/2024, 10:30:00 AM''),
      times100_toFixed1 = (\<lambda>v. ''95.0''),
      toString = (\<lambda>v. ''1'')\<rparr>"




text \<open>A backend that is down, and one that answers every request with the body \<open>null\<close>.\<close>

definition backend_down :: transport where
  "backend_down u = Failure (AxiosError ''timeout of 10000ms exceeded'')"

definition backend_null :: transport where
  "backend_null u = Success \<lparr>status_code = 200, data = JNull\<rparr>"

text \<open>A backend whose camera map has an entry with a numeric id and no name.\<close>

definition backend_numeric_id :: transport where
  "backend_numeric_id u =
     Success \<lparr>status_code = 200,
              data = JObj [(''cameras'', JObj [(''7'', JObj [(''id'', JNum 7)])])]\<rparr>"







text \<open>A backend that answers the dashboard's two requests.\<close>

definition backend_up :: transport where
  "backend_up u =
     (if u = ''/system/stats'' then Success \<lparr>status_code = 200, data = JObj [(''active_cameras'', JNum 1)]\<rparr>
      else Success \<lparr>status_code = 200, data = JObj [(''cameras'', JObj two_cameras)]\<rparr>)"

text \<open>The properties of \<open>denied_entry_normalized\<close>.\<close>

definition denied_fields :: "(string \<times> jsval) list" where
  "denied_fields =
     [(''log_id'', JNum 2), (''timestamp'', JStr ''2024-01-15T10:30:00.000Z''),
      (''camera_id'', JStr ''camera_2''), (''person_id'', JStr ''EMP007''),
      (''access_result'', JStr ''denied''), (''confidence_score'', JNum 0),
      (''access_type'', JStr ''unknown'')]"

text \<open>The views of the other pages before their first fetch.\<close>

definition CameraHealth_initial :: camera_health_view where
  "CameraHealth_initial = \<lparr>health_cameras = JArr [], health_loading = True, health_error = None\<rparr>"

definition LiveFeed_initial :: live_feed_view where
  "LiveFeed_initial =
     \<lparr>live_cameras = JArr [], live_selectedCamera = JNull, live_loading = True,
      live_error = None\<rparr>"

definition Employees_initial :: employees_view where
  "Employees_initial =
     \<lparr>employees_list = JArr [], employees_loading = True, employees_error = None\<rparr>"


text \<open>Two clocks that stand still, one second apart.\<close>

definition clock_a :: "nat \<Rightarrow> int" where
  "clock_a i = 1700000000000"

definition clock_b :: "nat \<Rightarrow> int" where
  "clock_b i = 1700000001000"

text \<open>A clock that agrees with \<open>clock_a\<close> on the first five reads only.\<close>

definition clock_c :: "nat \<Rightarrow> int" where
  "clock_c i = (if i < 5 then 1700000000000 else 0)"



text \<open>A backend that answers the log request without filters with one raw entry.\<close>

definition backend_one_log :: transport where
  "backend_one_log u =
     (if u = ''/access/logs?''
      then Success \<lparr>status_code = 200, data = JObj [(''logs'', JArr [JObj
        [(''id'', JNum 1), (''timestamp'', JStr ''2024-01-15T10:30:00.000Z''),
         (''camera_id'', JStr ''camera_1''), (''person_id'', JStr ''EMP001''),
         (''access_type'', JStr ''face_recognition''), (''access_result'', JStr ''granted''),
         (''confidence_score'', JNum (95 / 100))]])]\<rparr>
      else Failure (AxiosError ''Network Error''))"

section \<open>Facts about values and the helpers\<close>

lemma truthy_defined: "truthy v \<Longrightarrow> v \<noteq> JUndefined"
  by auto


lemma map_of_setProp: "map_of (setProp k v m) = (map_of m)(k \<mapsto> v)"
  by (simp add: setProp_def update_conv')

lemma field_setProp: "field (setProp k v m) k' = (if k' = k then v else field m k')"
  by (simp add: field_def map_of_setProp)




lemma formatCameraName_raises:
  "formatCameraName v = Inl e \<longleftrightarrow> e = TypeError \<and> truthy v \<and> \<not> isString v"
  by (cases v) (auto simp: isString_def)

lemma formatCameraName_returns:
  "(\<exists>n. formatCameraName v = Inr n) \<longleftrightarrow> \<not> truthy v \<or> isString v"
  by (cases v) (auto simp: isString_def)


lemma toISOString_nonempty: "toISOString ms \<noteq> []"
  by (simp add: toISOString_def Let_def split: prod.splits)


section \<open>Camera normalization\<close>

text \<open>\<open>normalizeCamera\<close> raises on an object exactly when it cannot compute the name.\<close>

lemma normalizeCamera_raises:
  "normalizeCamera (JObj m) = Inl e \<longleftrightarrow> e = TypeError \<and> \<not> camera_record (JObj m)"
proof (cases "formatCameraName (field m ''id'')")
  case (Inl e')
  then have "e' = TypeError" "truthy (field m ''id'')" "\<not> isString (field m ''id'')"
    by (simp_all add: formatCameraName_raises)
  with Inl show ?thesis
    unfolding normalizeCamera_def camera_record_def by (auto simp: Let_def)
next
  case (Inr n)
  then have "\<not> truthy (field m ''id'') \<or> isString (field m ''id'')"
    using formatCameraName_returns by blast
  with Inr show ?thesis
    unfolding normalizeCamera_def camera_record_def by (auto simp: Let_def)
qed

text \<open>
  For example, an entry \<open>{id: 7}\<close> makes \<open>formatCameraName\<close> call \<open>replace\<close> on a
  number, and \<open>getCameras\<close> rejects.
\<close>

lemma getCameras_numeric_id_raises: "getCameras backend_numeric_id = Rejected TypeError"
  by code_simp



lemma normalizeLog_record:
  "normalizeLog now (JObj m) = Inr (JObj
     (setProp ''access_type'' (js_or (field m ''access_type'') (JStr ''unknown''))
     (setProp ''person_id'' (js_or (field m ''person_id'') (JStr ''unknown''))
     (setProp ''camera_id'' (js_or (field m ''camera_id'') (JStr ''unknown''))
     (setProp ''timestamp'' (js_or (field m ''timestamp'') (JStr (toISOString now)))
     (setProp ''confidence_score'' (js_or (field m ''confidence'') (field m ''confidence_score''))
     (setProp ''access_result'' (js_or (field m ''access_type'') (field m ''access_result''))
     (setProp ''log_id'' (js_or (field m ''id'') (field m ''log_id''))
      m))))))))"
  by (simp add: normalizeLog_def Let_def)














section \<open>Access-log normalization\<close>

text \<open>
  What the code does with the two raw properties: \<open>access_result\<close> is the raw
  \<open>access_type\<close> whenever that is truthy, and the raw \<open>access_result\<close> only otherwise;
  \<open>access_type\<close> is the raw \<open>access_type\<close> or \<open>'unknown'\<close>.
\<close>

lemma normalizeLog_access_fields:
  "\<exists>out. normalizeLog now (JObj m) = Inr (JObj out)
     \<and> field out ''access_result'' = js_or (field m ''access_type'') (field m ''access_result'')
     \<and> field out ''access_type'' = js_or (field m ''access_type'') (JStr ''unknown'')"
  by (simp add: normalizeLog_record field_setProp)

text \<open>
  Claim C1 at a record that has both properties. The claim takes \<open>accessResult\<close> from the
  raw \<open>access_result\<close> when that is present, here \<open>"granted"\<close>; the code returns the raw
  \<open>access_type\<close>, \<open>"face_recognition"\<close>, in both properties.
\<close>

theorem access_result_overwritten_by_access_type:
  "getAccessLogs clock_a [] backend_one_log
   = Fulfilled (JArr [JObj
        [(''id'', JNum 1), (''timestamp'', JStr ''2024-01-15T10:30:00.000Z''),
         (''camera_id'', JStr ''camera_1''), (''person_id'', JStr ''EMP001''),
         (''access_type'', JStr ''face_recognition''),
         (''access_result'', JStr ''face_recognition''),
         (''confidence_score'', JNum (95 / 100)), (''log_id'', JNum 1)]])"
  by code_simp

section \<open>The gateway on failure\<close>

lemma api_get_Failure: "t url = Failure e \<Longrightarrow> api_get t url = Rejected e"
  by (simp add: api_get_def response_interceptor_def)

text \<open>
  Claim C3, as the code has it. When the transport fails, the promise of every fetch
  function rejects with the error axios reported, unchanged: the failure is thrown to the
  caller, not returned as a value. The callers catch it: \<open>fetchLogs\<close> and \<open>fetchData\<close>
  put the mock data and a message into their view.
\<close>

theorem transport_failure_rejects:
  "(t ''/system/stats'' = Failure e \<longrightarrow> getSystemStats t = Rejected e)
   \<and> (t ''/cameras'' = Failure e \<longrightarrow> getCameras t = Rejected e)
   \<and> (t (accessLogsUrl params) = Failure e \<longrightarrow> getAccessLogs clock params t = Rejected e)
   \<and> (t ''/employees'' = Failure e \<longrightarrow> getEmployees clock t = Rejected e)
   \<and> (t (accessLogsUrl (page_filters page)) = Failure e \<longrightarrow>
        fetchLogs clock t page
          = page\<lparr>page_error := Some ''Failed to load access logs'', page_logs := mockLogs clock,
                 page_loading := False\<rparr>)
   \<and> (t ''/system/stats'' = Failure e \<or> t ''/cameras'' = Failure e \<longrightarrow>
        fetchData clock t v
          = v\<lparr>dash_error := Some ''Failed to load dashboard data'', systemStats := mockStats clock,
              cameras := mockCameras clock, dash_loading := False\<rparr>)"
proof (intro conjI impI)
  assume "t ''/system/stats'' = Failure e"
  then show "getSystemStats t = Rejected e"
    by (simp add: getSystemStats_def api_get_Failure)
next
  assume "t ''/cameras'' = Failure e"
  then show "getCameras t = Rejected e"
    by (simp add: getCameras_def api_get_Failure)
next
  assume "t (accessLogsUrl params) = Failure e"
  then show "getAccessLogs clock params t = Rejected e"
    by (simp add: getAccessLogs_def api_get_Failure)
next
  assume "t ''/employees'' = Failure e"
  then show "getEmployees clock t = Rejected e"
    by (simp add: getEmployees_def api_get_Failure)
next
  assume "t (accessLogsUrl (page_filters page)) = Failure e"
  then show "fetchLogs clock t page
          = page\<lparr>page_error := Some ''Failed to load access logs'', page_logs := mockLogs clock,
                 page_loading := False\<rparr>"
    by (simp add: fetchLogs_def getAccessLogs_def api_get_Failure)
next
  assume "t ''/system/stats'' = Failure e \<or> t ''/cameras'' = Failure e"
  then have "getSystemStats t = Rejected e \<or> getCameras t = Rejected e"
    by (auto simp: getSystemStats_def getCameras_def api_get_Failure)
  then show "fetchData clock t v
          = v\<lparr>dash_error := Some ''Failed to load dashboard data'', systemStats := mockStats clock,
              cameras := mockCameras clock, dash_loading := False\<rparr>"
    by (auto simp: fetchData_def fetchData_settled_def split: promise.splits)
qed

theorem transport_failure_rejects_witness:
  "backend_down ''/cameras'' = Failure (AxiosError ''timeout of 10000ms exceeded'')
   \<and> getCameras backend_down = Rejected (AxiosError ''timeout of 10000ms exceeded'')
   \<and> page_error (fetchLogs clock_a backend_down AccessLogs_initial)
        = Some ''Failed to load access logs''"
proof -
  have h: "backend_down u = Failure (AxiosError ''timeout of 10000ms exceeded'')" for u
    by (simp add: backend_down_def)
  show ?thesis
    using transport_failure_rejects
      [of backend_down "AxiosError ''timeout of 10000ms exceeded''" "[]" clock_a
          AccessLogs_initial Dashboard_initial] h
    by (simp add: AccessLogs_initial_def)
qed

text \<open>
  The claim as stated fails: with the backend down, \<open>getAccessLogs\<close> and \<open>getCameras\<close>
  end in a rejected promise, that is an exception at the caller's \<open>await\<close>; and on the
  body \<open>null\<close> \<open>getCameras\<close> raises a \<open>TypeError\<close> of its own.
\<close>

theorem gateway_throws_counterexample:
  "getAccessLogs clock_a [] backend_down = Rejected (AxiosError ''timeout of 10000ms exceeded'')
   \<and> getCameras backend_down = Rejected (AxiosError ''timeout of 10000ms exceeded'')
   \<and> getCameras backend_null = Rejected TypeError"
  by code_simp

section \<open>The confidence column\<close>

lemma percent_not_NA: "x @ ''%'' \<noteq> ''N/A''"
proof
  assume "x @ ''%'' = ''N/A''"
  then have "last (x @ ''%'') = last ''N/A''" by simp
  then show False by simp
qed

text \<open>The fields of the CSV row of a record, and the text \<open>handleExport\<close> builds.\<close>

lemma csvFields_record:
  "csvFields h (JObj m)
     = Inr [toLocaleString h (field m ''timestamp''), join_element h (field m ''camera_id''),
            join_element h (field m ''person_id''), join_element h (field m ''access_type''),
            join_element h (field m ''access_result''),
            confidenceText h (field m ''confidence_score'')]"
  by (simp add: csvFields_def Let_def)

lemma map_throw_csvFields:
  "map_throw (csvFields h) (map JObj ms)
     = Inr (map (\<lambda>m. [toLocaleString h (field m ''timestamp''),
                        join_element h (field m ''camera_id''),
                        join_element h (field m ''person_id''),
                        join_element h (field m ''access_type''),
                        join_element h (field m ''access_result''),
                        confidenceText h (field m ''confidence_score'')]) ms)"
  by (induction ms) (simp_all add: csvFields_record)

text \<open>
  Claim C10. The table cell of an entry and the last field of its row in the exported
  CSV text are the same text. The export is the header line followed by one line per
  entry: timestamp, camera, person, access type, result and that text, joined by commas.
  A confidence score of exactly 0 gives \<open>N/A\<close>; the text is \<open>N/A\<close> exactly for a falsy
  score, and otherwise it is the one-decimal rendering of the score times 100 followed by
  \<open>%\<close>, which happens only for a score that is not 0, \<open>null\<close> or \<open>undefined\<close>.
\<close>

theorem confidence_zero_shows_NA:
  "confidenceCell h (JObj m) = Inr (confidenceText h (field m ''confidence_score''))
   \<and> csvContent h (JArr (map JObj ms))
       = Inr (join [CHR 0x0A]
           (''Timestamp,Camera,Person ID,Access Type,Status,Confidence''
            # map (\<lambda>m. toLocaleString h (field m ''timestamp'') @ '','' @
                        join_element h (field m ''camera_id'') @ '','' @
                        join_element h (field m ''person_id'') @ '','' @
                        join_element h (field m ''access_type'') @ '','' @
                        join_element h (field m ''access_result'') @ '','' @
                        confidenceText h (field m ''confidence_score'')) ms))
   \<and> (field m ''confidence_score'' = JNum 0 \<longrightarrow>
         confidenceText h (field m ''confidence_score'') = ''N/A'')
   \<and> (confidenceText h score = ''N/A'' \<longleftrightarrow> \<not> truthy score)
   \<and> (truthy score \<longrightarrow>
         score \<noteq> JNum 0 \<and> score \<noteq> JNull \<and> score \<noteq> JUndefined
         \<and> confidenceText h score = times100_toFixed1 h score @ ''%'')"
proof (intro conjI impI)
  show "confidenceCell h (JObj m) = Inr (confidenceText h (field m ''confidence_score''))"
    by (simp add: confidenceCell_def)
  have header: "join '','' csvHeaders = ''Timestamp,Camera,Person ID,Access Type,Status,Confidence''"
    by (simp add: csvHeaders_def)
  show "csvContent h (JArr (map JObj ms))
       = Inr (join [CHR 0x0A]
           (''Timestamp,Camera,Person ID,Access Type,Status,Confidence''
            # map (\<lambda>m. toLocaleString h (field m ''timestamp'') @ '','' @
                        join_element h (field m ''camera_id'') @ '','' @
                        join_element h (field m ''person_id'') @ '','' @
                        join_element h (field m ''access_type'') @ '','' @
                        join_element h (field m ''access_result'') @ '','' @
                        confidenceText h (field m ''confidence_score'')) ms))"
    by (simp add: csvContent_def map_throw_csvFields header comp_def)
  show "confidenceText h (field m ''confidence_score'') = ''N/A''"
    if "field m ''confidence_score'' = JNum 0"
    using that by (simp add: confidenceText_def)
  show "confidenceText h score = ''N/A'' \<longleftrightarrow> \<not> truthy score"
    using percent_not_NA by (simp add: confidenceText_def)
  show "score \<noteq> JNum 0" "score \<noteq> JNull" "score \<noteq> JUndefined"
      "confidenceText h score = times100_toFixed1 h score @ ''%''"
    if "truthy score"
    using that by (auto simp: confidenceText_def)
qed

text \<open>
  The denied entry has the score 0 and shows \<open>N/A\<close> in the table and at the end of its
  CSV line; the score 0.95 shows as a percentage.
\<close>

theorem confidence_zero_shows_NA_witness:
  "field denied_fields ''confidence_score'' = JNum 0
   \<and> confidenceCell example_host (JObj denied_fields) = Inr ''N/A''
   \<and> csvContent example_host (JArr [JObj denied_fields])
       = Inr (''Timestamp,Camera,Person ID,Access Type,Status,Confidence'' @ [CHR 0x0A]
              @ ''1/15/2024, 10:30:00 AM,camera_2,EMP007,unknown,denied,N/A'')
   \<and> truthy (JNum (95 / 100))
   \<and> confidenceText example_host (JNum (95 / 100)) = ''95.0%''"
proof -
  have h: "field denied_fields ''confidence_score'' = JNum 0"
    by (simp add: field_def denied_fields_def)
  have t: "truthy (JNum (95 / 100))" by simp
  have f: "field denied_fields ''timestamp'' = JStr ''2024-01-15T10:30:00.000Z''"
      "field denied_fields ''camera_id'' = JStr ''camera_2''"
      "field denied_fields ''person_id'' = JStr ''EMP007''"
      "field denied_fields ''access_type'' = JStr ''unknown''"
      "field denied_fields ''access_result'' = JStr ''denied''"
    by (simp_all add: field_def denied_fields_def)
  show ?thesis
    using confidence_zero_shows_NA [of example_host denied_fields "[denied_fields]" "JNum (95 / 100)"]
      h t f
    by (simp add: example_host_def join_element_def)
qed

section \<open>The dashboard's polling effect\<close>

text \<open>Once an instance is unmounted, no event changes its view or starts a fetch.\<close>

lemma unmounted_stays:
  assumes "life d = Unmounted" "\<not> timer d"
  shows "view (run es d) = view d \<and> in_flight (run es d) \<le> in_flight d
           \<and> \<not> timer (run es d) \<and> life (run es d) = Unmounted"
  using assms
proof (induction es arbitrary: d)
  case Nil
  then show ?case by simp
next
  case (Cons e es)
  have s: "life (step e d) = Unmounted" "\<not> timer (step e d)" "view (step e d) = view d"
      "in_flight (step e d) \<le> in_flight d"
    using Cons.prems by (cases e; simp add: setState_def)+
  from Cons.IH [OF s(1) s(2)] s(3) s(4) show ?case
    by simp
qed

text \<open>
  Claim C7. Unmounting a mounted dashboard stops its subscription, and from then on,
  whatever happens (responses of fetches that were still outstanding, in any number and
  with any result, and timer ticks), the view's state stays as it was at the stop, the
  timer stays cleared and no further fetch is started. Before the stop a response is
  applied to the view.
\<close>

theorem unmount_stops_polling:
  assumes "life d = IsMounted"
  shows "view (run es (step Unmount d)) = view d
           \<and> in_flight (run es (step Unmount d)) \<le> in_flight d
           \<and> \<not> timer (run es (step Unmount d))
           \<and> (0 < in_flight d \<longrightarrow> view (step (Settle clock t) d) = fetchData clock t (view d))"
proof -
  have u: "life (step Unmount d) = Unmounted" "\<not> timer (step Unmount d)"
      "view (step Unmount d) = view d" "in_flight (step Unmount d) = in_flight d"
    using assms by simp_all
  from unmounted_stays [OF u(1) u(2), of es] u(3) u(4)
  have "view (run es (step Unmount d)) = view d
           \<and> in_flight (run es (step Unmount d)) \<le> in_flight d
           \<and> \<not> timer (run es (step Unmount d))"
    by simp
  moreover have "0 < in_flight d \<longrightarrow> view (step (Settle clock t) d) = fetchData clock t (view d)"
    using assms by (simp add: setState_def)
  ultimately show ?thesis by simp
qed

text \<open>
  Start a subscription, stop it while its first fetch is in flight, then let the
  response arrive, the timer's moment pass and another response fail: the view is the
  one the stop left. Without the stop the response is applied.
\<close>

theorem unmount_stops_polling_witness:
  "life (step Mount Dashboard_unmounted) = IsMounted
   \<and> in_flight (step Mount Dashboard_unmounted) = 1
   \<and> view (run [Settle clock_a backend_up, Tick, Settle clock_b backend_down]
              (step Unmount (step Mount Dashboard_unmounted)))
       = view (step Mount Dashboard_unmounted)
   \<and> view (step (Settle clock_a backend_up) (step Mount Dashboard_unmounted))
       = fetchData clock_a backend_up (view (step Mount Dashboard_unmounted))"
proof -
  have h: "life (step Mount Dashboard_unmounted) = IsMounted"
    by (simp add: Dashboard_unmounted_def)
  have n: "in_flight (step Mount Dashboard_unmounted) = 1"
    by (simp add: Dashboard_unmounted_def)
  show ?thesis
    using unmount_stops_polling
      [OF h, of "[Settle clock_a backend_up, Tick, Settle clock_b backend_down]"
          clock_a backend_up] h n
    by simp
qed

section \<open>The degraded data\<close>

text \<open>
  Claim C9, as the code has it. Every page has its own degraded data, put into its view
  when its fetch fails: the mock logs of AccessLogs, the mock statistics and cameras of
  Dashboard, the mock cameras of CameraHealth and of LiveFeed, the mock employees of
  Employees. The three camera collections differ from each other. The data of LiveFeed
  and of Employees is the same in every invocation. The other collections are fixed
  except for their time-derived properties: two invocations agree on everything but the
  \<open>timestamp\<close> of the log entries (the clock minus 5, 15, 30, 60 and 120 seconds), the
  \<open>last_update\<close> of the statistics and the \<open>lastFrame\<close> of the first two dashboard cameras
  (the clock), and the \<open>lastFrame\<close> of the four CameraHealth cameras (the clock minus 5, 3,
  300 and 600 seconds); they are the same when the clock reads the same.
\<close>

theorem degraded_data_fixed_except_time:
  "(t (accessLogsUrl (page_filters page)) = Failure e \<longrightarrow>
      page_logs (fetchLogs c1 t page) = mockLogs c1)
   \<and> (t ''/system/stats'' = Failure e \<or> t ''/cameras'' = Failure e \<longrightarrow>
        systemStats (fetchData c1 t v) = mockStats c1 \<and> cameras (fetchData c1 t v) = mockCameras c1)
   \<and> (t ''/cameras'' = Failure e \<longrightarrow>
        health_cameras (health_fetchCameras c1 t hv) = health_mockCameras c1
        \<and> live_cameras (live_fetchCameras cameraId t lv) = live_mockCameras)
   \<and> (t ''/employees'' = Failure e \<longrightarrow>
        employees_list (fetchEmployees c1 t ev) = mockEmployees)
   \<and> without_each ''timestamp'' (mockLogs c1) = without_each ''timestamp'' (mockLogs c2)
   \<and> map (\<lambda>x. getProp x ''timestamp'') (elements (mockLogs c1))
       = [Inr (JStr (toISOString (c1 0 - 5000))), Inr (JStr (toISOString (c1 1 - 15000))),
          Inr (JStr (toISOString (c1 2 - 30000))), Inr (JStr (toISOString (c1 3 - 60000))),
          Inr (JStr (toISOString (c1 4 - 120000)))]
   \<and> without ''last_update'' (mockStats c1) = without ''last_update'' (mockStats c2)
   \<and> getProp (mockStats c1) ''last_update'' = Inr (JStr (toISOString (c1 0)))
   \<and> without_each ''lastFrame'' (mockCameras c1) = without_each ''lastFrame'' (mockCameras c2)
   \<and> map (\<lambda>x. getProp x ''lastFrame'') (elements (mockCameras c1))
       = [Inr (JStr (toISOString (c1 1))), Inr (JStr (toISOString (c1 2))),
          Inr JUndefined, Inr JUndefined]
   \<and> without_each ''lastFrame'' (health_mockCameras c1)
       = without_each ''lastFrame'' (health_mockCameras c2)
   \<and> map (\<lambda>x. getProp x ''lastFrame'') (elements (health_mockCameras c1))
       = [Inr (JStr (toISOString (c1 0 - 5000))), Inr (JStr (toISOString (c1 1 - 3000))),
          Inr (JStr (toISOString (c1 2 - 300000))), Inr (JStr (toISOString (c1 3 - 600000)))]
   \<and> mockCameras c1 \<noteq> health_mockCameras c2
   \<and> mockCameras c1 \<noteq> live_mockCameras
   \<and> health_mockCameras c1 \<noteq> live_mockCameras
   \<and> (c1 0 = c2 0 \<and> c1 1 = c2 1 \<and> c1 2 = c2 2 \<and> c1 3 = c2 3 \<and> c1 4 = c2 4 \<longrightarrow>
        mockLogs c1 = mockLogs c2 \<and> mockCameras c1 = mockCameras c2
        \<and> mockStats c1 = mockStats c2 \<and> health_mockCameras c1 = health_mockCameras c2)"
proof (intro conjI impI)
  assume "t (accessLogsUrl (page_filters page)) = Failure e"
  then show "page_logs (fetchLogs c1 t page) = mockLogs c1"
    by (simp add: fetchLogs_def getAccessLogs_def api_get_Failure)
next
  assume "t ''/system/stats'' = Failure e \<or> t ''/cameras'' = Failure e"
  then have "getSystemStats t = Rejected e \<or> getCameras t = Rejected e"
    by (auto simp: getSystemStats_def getCameras_def api_get_Failure)
  then have "fetchData c1 t v
          = v\<lparr>dash_error := Some ''Failed to load dashboard data'', systemStats := mockStats c1,
              cameras := mockCameras c1, dash_loading := False\<rparr>"
    by (auto simp: fetchData_def fetchData_settled_def split: promise.splits)
  then show "systemStats (fetchData c1 t v) = mockStats c1"
      "cameras (fetchData c1 t v) = mockCameras c1"
    by simp_all
next
  assume "t ''/cameras'' = Failure e"
  then have r: "getCameras t = Rejected e"
    by (simp add: getCameras_def api_get_Failure)
  then show "health_cameras (health_fetchCameras c1 t hv) = health_mockCameras c1"
    by (simp add: health_fetchCameras_def)
  from r show "live_cameras (live_fetchCameras cameraId t lv) = live_mockCameras"
    by (simp add: live_fetchCameras_def Let_def)
next
  assume "t ''/employees'' = Failure e"
  then show "employees_list (fetchEmployees c1 t ev) = mockEmployees"
    by (simp add: fetchEmployees_def getEmployees_def api_get_Failure)
next
  show "without_each ''timestamp'' (mockLogs c1) = without_each ''timestamp'' (mockLogs c2)"
    by (simp add: without_each_def without_def mockLogs_def)
  show "map (\<lambda>x. getProp x ''timestamp'') (elements (mockLogs c1))
       = [Inr (JStr (toISOString (c1 0 - 5000))), Inr (JStr (toISOString (c1 1 - 15000))),
          Inr (JStr (toISOString (c1 2 - 30000))), Inr (JStr (toISOString (c1 3 - 60000))),
          Inr (JStr (toISOString (c1 4 - 120000)))]"
    by (simp add: mockLogs_def field_def)
  show "without ''last_update'' (mockStats c1) = without ''last_update'' (mockStats c2)"
    by (simp add: without_def mockStats_def)
  show "getProp (mockStats c1) ''last_update'' = Inr (JStr (toISOString (c1 0)))"
    by (simp add: mockStats_def field_def)
  show "without_each ''lastFrame'' (mockCameras c1) = without_each ''lastFrame'' (mockCameras c2)"
    by (simp add: without_each_def without_def mockCameras_def)
  show "map (\<lambda>x. getProp x ''lastFrame'') (elements (mockCameras c1))
       = [Inr (JStr (toISOString (c1 1))), Inr (JStr (toISOString (c1 2))),
          Inr JUndefined, Inr JUndefined]"
    by (simp add: mockCameras_def field_def)
  show "without_each ''lastFrame'' (health_mockCameras c1)
       = without_each ''lastFrame'' (health_mockCameras c2)"
    by (simp add: without_each_def without_def health_mockCameras_def)
  show "map (\<lambda>x. getProp x ''lastFrame'') (elements (health_mockCameras c1))
       = [Inr (JStr (toISOString (c1 0 - 5000))), Inr (JStr (toISOString (c1 1 - 3000))),
          Inr (JStr (toISOString (c1 2 - 300000))), Inr (JStr (toISOString (c1 3 - 600000)))]"
    by (simp add: health_mockCameras_def field_def)
  show "mockCameras c1 \<noteq> health_mockCameras c2"
    by (simp add: mockCameras_def health_mockCameras_def)
  show "mockCameras c1 \<noteq> live_mockCameras"
    by (simp add: mockCameras_def live_mockCameras_def)
  show "health_mockCameras c1 \<noteq> live_mockCameras"
    by (simp add: health_mockCameras_def live_mockCameras_def)
next
  assume eq: "c1 0 = c2 0 \<and> c1 1 = c2 1 \<and> c1 2 = c2 2 \<and> c1 3 = c2 3 \<and> c1 4 = c2 4"
  then show "mockLogs c1 = mockLogs c2" by (simp add: mockLogs_def)
  from eq show "mockCameras c1 = mockCameras c2" by (simp add: mockCameras_def)
  from eq show "mockStats c1 = mockStats c2" by (simp add: mockStats_def)
  from eq show "health_mockCameras c1 = health_mockCameras c2"
    by (simp add: health_mockCameras_def)
qed

theorem degraded_data_fixed_except_time_witness:
  "clock_a 0 = clock_c 0 \<and> clock_a 1 = clock_c 1 \<and> clock_a 2 = clock_c 2
   \<and> clock_a 3 = clock_c 3 \<and> clock_a 4 = clock_c 4
   \<and> mockLogs clock_a = mockLogs clock_c
   \<and> health_mockCameras clock_a = health_mockCameras clock_c
   \<and> backend_down ''/cameras'' = Failure (AxiosError ''timeout of 10000ms exceeded'')
   \<and> health_cameras (health_fetchCameras clock_a backend_down CameraHealth_initial)
       = health_mockCameras clock_a
   \<and> live_cameras (live_fetchCameras ''camera_1'' backend_down LiveFeed_initial) = live_mockCameras
   \<and> employees_list (fetchEmployees clock_a backend_down Employees_initial) = mockEmployees"
proof -
  have h: "clock_a 0 = clock_c 0 \<and> clock_a 1 = clock_c 1 \<and> clock_a 2 = clock_c 2
           \<and> clock_a 3 = clock_c 3 \<and> clock_a 4 = clock_c 4"
    by (simp add: clock_a_def clock_c_def)
  have d: "backend_down u = Failure (AxiosError ''timeout of 10000ms exceeded'')" for u
    by (simp add: backend_down_def)
  show ?thesis
    using degraded_data_fixed_except_time
      [of backend_down AccessLogs_initial "AxiosError ''timeout of 10000ms exceeded''" clock_a
          Dashboard_initial CameraHealth_initial "''camera_1''" LiveFeed_initial Employees_initial
          clock_c] h d
    by simp
qed

text \<open>
  The claim as stated fails. Two failing fetches of the log page one second apart put
  different collections into the view, and so do two of the dashboard. And at one and
  the same time the dashboard, the camera health page and the live feed substitute three
  different camera collections.
\<close>

theorem degraded_data_time_counterexample:
  "page_logs (fetchLogs clock_a backend_down AccessLogs_initial) = mockLogs clock_a
   \<and> page_logs (fetchLogs clock_b backend_down AccessLogs_initial) = mockLogs clock_b
   \<and> getProp (hd (safeLogs (mockLogs clock_a))) ''timestamp''
       = Inr (JStr ''2023-11-14T22:13:15.000Z'')
   \<and> getProp (hd (safeLogs (mockLogs clock_b))) ''timestamp''
       = Inr (JStr ''2023-11-14T22:13:16.000Z'')
   \<and> mockLogs clock_a \<noteq> mockLogs clock_b
   \<and> mockCameras clock_a \<noteq> mockCameras clock_b
   \<and> mockStats clock_a \<noteq> mockStats clock_b
   \<and> cameras (fetchData clock_a backend_down Dashboard_initial)
       \<noteq> health_cameras (health_fetchCameras clock_a backend_down CameraHealth_initial)
   \<and> cameras (fetchData clock_a backend_down Dashboard_initial)
       \<noteq> live_cameras (live_fetchCameras ''camera_1'' backend_down LiveFeed_initial)"
  by code_simp

section \<open>Pagination in LogTable\<close>







section \<open>Where the filter criteria go\<close>






end
